theory Spec2Isabelle
  imports Main "HOL-Library.Sublist"
begin

section \<open>Python values, exceptions and text\<close>

text \<open>
  The module \<open>xcube_sh/geodb.py\<close> handles GeoJSON-style features on two backends.
  Scalars are the values of feature properties, of feature ids and of bounding-box
  coordinates.  A float is carried by its \<open>repr\<close> text, the only thing the module ever
  asks of it (besides its truth value); no floating-point arithmetic is performed
  anywhere in the module.
\<close>

datatype scalar = PNone | PBool bool | PInt int | PFloat string | PStr string

text \<open>
  Values that come back from the database driver or from the expression evaluator:
  scalars, sequences (tuples, lists) and string-keyed mappings (JSON objects).
\<close>

datatype pyval = PS scalar | PSeq "pyval list" | PMap "(string \<times> pyval) list"

text \<open>
  Exceptions.  \<open>SystemExit\<close> and \<open>KeyboardInterrupt\<close> derive from \<open>BaseException\<close>
  only; every other constructor is a subclass of \<open>Exception\<close>.
\<close>

datatype exn =
    NotImplementedError string
  | ValueError string
  | KeyError string
  | IndexError
  | TypeError
  | SyntaxError
  | NameError string
  | ZeroDivisionError
  | FileNotFoundError string
  | DatabaseError string
  | SystemExit
  | KeyboardInterrupt

fun is_Exception :: "exn \<Rightarrow> bool" where
  "is_Exception SystemExit = False"
| "is_Exception KeyboardInterrupt = False"
| "is_Exception _ = True"

definition nl :: string where "nl = [CHR 0x0A]"
definition tab :: string where "tab = [CHR 0x09]"
definition dq :: string where "dq = [CHR 0x22]"
definition sq :: string where "sq = [CHR 0x27]"

fun digit_char :: "nat \<Rightarrow> char" where
  "digit_char n = char_of (48 + n)"

fun str_nat :: "nat \<Rightarrow> string" where
  "str_nat n = (if n < 10 then [digit_char n] else str_nat (n div 10) @ [digit_char (n mod 10)])"

definition str_int :: "int \<Rightarrow> string" where
  "str_int i = (if i < 0 then CHR ''-'' # str_nat (nat (- i)) else str_nat (nat i))"

text \<open>\<open>str(v)\<close>, which is also what an f-string replacement field \<open>{v}\<close> produces.\<close>

fun py_str :: "scalar \<Rightarrow> string" where
  "py_str PNone = ''None''"
| "py_str (PBool b) = (if b then ''True'' else ''False'')"
| "py_str (PInt i) = str_int i"
| "py_str (PFloat r) = r"
| "py_str (PStr s) = s"

text \<open>Truth value of a scalar, \<open>bool(v)\<close>.\<close>

fun truthy_scalar :: "scalar \<Rightarrow> bool" where
  "truthy_scalar PNone = False"
| "truthy_scalar (PBool b) = b"
| "truthy_scalar (PInt i) = (i \<noteq> 0)"
| "truthy_scalar (PFloat r) = (r \<noteq> ''0.0'' \<and> r \<noteq> ''-0.0'')"
| "truthy_scalar (PStr s) = (s \<noteq> [])"

fun truthy :: "pyval \<Rightarrow> bool" where
  "truthy (PS v) = truthy_scalar v"
| "truthy (PSeq xs) = (xs \<noteq> [])"
| "truthy (PMap m) = (m \<noteq> [])"

text \<open>\<open>sep.join(xs)\<close>\<close>

fun join :: "string \<Rightarrow> string list \<Rightarrow> string" where
  "join sep [] = []"
| "join sep [x] = x"
| "join sep (x # y # ys) = x @ sep @ join sep (y # ys)"

text \<open>\<open>s.split(c)\<close> for a one-character separator: always at least one piece.\<close>

fun split_on :: "char \<Rightarrow> string \<Rightarrow> string list" where
  "split_on c [] = [[]]"
| "split_on c (x # xs) =
     (if x = c then [] # split_on c xs
      else (case split_on c xs of p # ps \<Rightarrow> (x # p) # ps | [] \<Rightarrow> [[x]]))"

text \<open>\<open>a in s\<close> on strings is \<^const>\<open>sublist\<close>: \<open>a\<close> occurs as a contiguous piece of \<open>s\<close>.\<close>

section \<open>The query translator: \<open>RemoteGeoPostgreSQLService._alter_query\<close>\<close>

text \<open>
  First half of \<open>_alter_query\<close> (lines 264--282): the bounding-box predicate.  The
  argument \<open>bbox\<close> is \<open>None\<close> or a sequence; \<open>if bbox:\<close> is false for \<open>None\<close> and for the
  empty sequence; reading \<open>bbox[0]\<close> .. \<open>bbox[3]\<close> of a shorter sequence raises
  \<open>IndexError\<close>.
\<close>

definition srid_str :: "int option \<Rightarrow> string" where
  "srid_str srid = (case srid of None \<Rightarrow> [] | Some n \<Rightarrow> ''SRID='' @ str_int n @ '';'')"

definition bbox_wkt :: "scalar \<Rightarrow> scalar \<Rightarrow> scalar \<Rightarrow> scalar \<Rightarrow> int option \<Rightarrow> string" where
  "bbox_wkt minx miny maxx maxy srid =
     '' '' @ srid_str srid @ ''POLYGON((''
       @ py_str minx @ '' '' @ py_str miny @ '',''
       @ py_str minx @ '' '' @ py_str maxy @ '',''
       @ py_str maxx @ '' '' @ py_str maxy @ '',''
       @ py_str maxx @ '' '' @ py_str miny @ '',''
       @ py_str minx @ '' '' @ py_str miny @ ''))'' @ ''::geometry''"

fun bbox_query :: "scalar list option \<Rightarrow> string \<Rightarrow> int option \<Rightarrow> exn + string option" where
  "bbox_query None bbox_mode srid = Inr None"
| "bbox_query (Some []) bbox_mode srid = Inr None"
| "bbox_query (Some (minx # miny # maxx # maxy # rest)) bbox_mode srid =
     (if bbox_mode = ''contains'' then
        Inr (Some ('' ST_Contains('' @ sq @ bbox_wkt minx miny maxx maxy srid @ sq @ '', geometry)''))
      else if bbox_mode = ''within'' then
        Inr (Some ('' ST_Within('' @ sq @ bbox_wkt minx miny maxx maxy srid @ sq @ '', geometry)''))
      else Inl (ValueError (''bbox_mode '' @ bbox_mode @ '' unknown'')))"
| "bbox_query (Some short) bbox_mode srid = Inl IndexError"

text \<open>\<open>not query\<close>: the query is \<open>None\<close> or the empty string.\<close>

fun query_text :: "string option \<Rightarrow> string option" where
  "query_text None = None"
| "query_text (Some s) = (if s = [] then None else Some s)"

text \<open>Second half (lines 284--302): the four-way combination.\<close>

fun combine :: "string option \<Rightarrow> string option \<Rightarrow> string \<Rightarrow> exn + string" where
  "combine None None fmt = Inr ''TRUE''"
| "combine (Some q) None fmt =
     (if fmt = ''geojson'' then Inr (''properties->>'' @ q)
      else if fmt = ''geopandas'' then Inr q
      else Inl (ValueError (''format '' @ fmt @ '' not known'')))"
| "combine None (Some bq) fmt = Inr bq"
| "combine (Some q) (Some bq) fmt =
     (if fmt = ''geojson'' then Inr (''properties->>'' @ q @ '' and '' @ bq)
      else if fmt = ''geopandas'' then Inr (q @ '' and '' @ bq)
      else Inl (ValueError (''format '' @ fmt @ '' not known'')))"

definition alter_query ::
  "string option \<Rightarrow> scalar list option \<Rightarrow> string \<Rightarrow> string \<Rightarrow> int option \<Rightarrow> exn + string" where
  "alter_query query bbox bbox_mode fmt srid =
     (case bbox_query bbox bbox_mode srid of
        Inl e \<Rightarrow> Inl e
      | Inr bq \<Rightarrow> combine (query_text query) bq fmt)"

section \<open>The column-type mapper: \<open>_make_column\<close>\<close>

definition prec_str :: "string \<Rightarrow> string" where
  "prec_str typ =
     (let l1 = split_on CHR '':'' typ;
          l2 = (if length l1 = 2 then split_on CHR ''.'' (l1 ! 1) else l1)
      in if length l2 = 2 then ''('' @ l2 ! 0 @ '','' @ l2 ! 1 @ '')'' else [])"

definition make_column :: "string \<Rightarrow> string \<Rightarrow> exn + string" where
  "make_column name typ =
     (if typ = ''str'' then
        Inr (name @ '' character varying(256) COLLATE pg_catalog.'' @ dq @ ''default'' @ dq)
      else if sublist ''int'' typ then Inr (name @ '' integer'')
      else if sublist ''float'' typ then Inr (name @ '' numeric'' @ prec_str typ)
      else Inl (NotImplementedError (''Column type '' @ typ @ '' not implemented'')))"

section \<open>Features and the local backend: \<open>LocalGeoDBService\<close>\<close>

text \<open>
  A feature is a dictionary; the module reads its keys \<open>id\<close>, \<open>properties\<close> and
  \<open>geometry\<close>.  A missing key is \<open>None\<close> here.  The properties are a dictionary from
  names to scalars, kept in insertion order (the keys of a dictionary are distinct).
\<close>

record feature =
  fid :: "scalar option"
  properties :: "(string \<times> scalar) list option"
  geometry :: "pyval option"

text \<open>
  The built-ins \<open>compile\<close> and \<open>eval\<close> are parameters: \<open>py_compile\<close> turns the text of
  an expression into code or raises, \<open>py_eval\<close> evaluates code with the given local
  variables to a value or raises.  \<open>compile(None, ...)\<close> raises \<open>TypeError\<close>.
\<close>

definition compile_query :: "(string \<Rightarrow> exn + 'code) \<Rightarrow> string option \<Rightarrow> exn + 'code" where
  "compile_query py_compile query =
     (case query of None \<Rightarrow> Inl TypeError | Some text \<Rightarrow> py_compile text)"

text \<open>
  Lines 127--128: \<open>_locals\<close> holds \<open>id\<close> when the feature has a true \<open>id\<close>, updated
  with the properties (\<open>feature.get('properties', {})\<close>).
\<close>

definition locals_of :: "feature \<Rightarrow> (string \<rightharpoonup> scalar)" where
  "locals_of f =
     (case fid f of
        Some v \<Rightarrow> if truthy_scalar v then [''id'' \<mapsto> v] else Map.empty
      | None \<Rightarrow> Map.empty)
     ++ map_of (case properties f of None \<Rightarrow> [] | Some ps \<Rightarrow> ps)"

text \<open>
  Lines 126--131: the \<open>try\<close> block.  \<open>except Exception\<close> turns every exception that is
  an \<open>Exception\<close> into the result \<open>False\<close>; the others propagate.
\<close>

definition eval_feature ::
  "('code \<Rightarrow> (string \<rightharpoonup> scalar) \<Rightarrow> exn + pyval) \<Rightarrow> 'code \<Rightarrow> feature \<Rightarrow> exn + pyval" where
  "eval_feature py_eval code f =
     (case py_eval code (locals_of f) of
        Inl e \<Rightarrow> if is_Exception e then Inr (PS (PBool False)) else Inl e
      | Inr v \<Rightarrow> Inr v)"

text \<open>Lines 124--136: the loop over the collection, with the result set built so far.\<close>

fun scan ::
  "('code \<Rightarrow> (string \<rightharpoonup> scalar) \<Rightarrow> exn + pyval) \<Rightarrow> 'code \<Rightarrow> int \<Rightarrow> feature list
     \<Rightarrow> feature list \<Rightarrow> exn + feature list" where
  "scan py_eval code max_records [] result_set = Inr result_set"
| "scan py_eval code max_records (f # fs) result_set =
     (case eval_feature py_eval code f of
        Inl e \<Rightarrow> Inl e
      | Inr result \<Rightarrow>
          if truthy result then
            (if int (length (result_set @ [f])) \<ge> max_records then Inr (result_set @ [f])
             else scan py_eval code max_records fs (result_set @ [f]))
          else scan py_eval code max_records fs result_set)"

text \<open>
  \<open>_get_collection\<close>: the directory of \<open>.geojson\<close> files is a map from collection names
  to the features of the file of that name, when the file exists.
\<close>

definition get_collection :: "(string \<rightharpoonup> feature list) \<Rightarrow> string \<Rightarrow> exn + feature list" where
  "get_collection files collection_name =
     (case files collection_name of
        Some c \<Rightarrow> Inr c
      | None \<Rightarrow> Inl (FileNotFoundError (''Could not find file '' @ collection_name @ ''.geojson'')))"

text \<open>\<open>if bbox:\<close>\<close>

fun bbox_given :: "scalar list option \<Rightarrow> bool" where
  "bbox_given None = False"
| "bbox_given (Some xs) = (xs \<noteq> [])"

definition local_find_features ::
  "(string \<Rightarrow> exn + 'code) \<Rightarrow> ('code \<Rightarrow> (string \<rightharpoonup> scalar) \<Rightarrow> exn + pyval)
     \<Rightarrow> (string \<rightharpoonup> feature list)
     \<Rightarrow> string \<Rightarrow> string option \<Rightarrow> int \<Rightarrow> string \<Rightarrow> scalar list option \<Rightarrow> string \<Rightarrow> int
     \<Rightarrow> exn + feature list" where
  "local_find_features py_compile py_eval files collection_name query max_records fmt bbox
       bbox_mode bbox_crs =
     (if bbox_given bbox then
        Inl (NotImplementedError ''bbox feature not implemented for driver local'')
      else
        (case compile_query py_compile query of
           Inl e \<Rightarrow> Inl e
         | Inr compiled_query \<Rightarrow>
             (case get_collection files collection_name of
                Inl e \<Rightarrow> Inl e
              | Inr collection \<Rightarrow> scan py_eval compiled_query max_records collection [])))"

definition local_find_feature ::
  "(string \<Rightarrow> exn + 'code) \<Rightarrow> ('code \<Rightarrow> (string \<rightharpoonup> scalar) \<Rightarrow> exn + pyval)
     \<Rightarrow> (string \<rightharpoonup> feature list)
     \<Rightarrow> string \<Rightarrow> string option \<Rightarrow> string \<Rightarrow> scalar list option \<Rightarrow> string \<Rightarrow> int
     \<Rightarrow> exn + feature option" where
  "local_find_feature py_compile py_eval files collection_name query fmt bbox bbox_mode bbox_crs =
     (case local_find_features py_compile py_eval files collection_name query 1 fmt bbox
             bbox_mode bbox_crs of
        Inl e \<Rightarrow> Inl e
      | Inr features \<Rightarrow> Inr (case features of [] \<Rightarrow> None | f # rest \<Rightarrow> Some f))"

definition local_new_collection :: "string \<Rightarrow> exn + string" where
  "local_new_collection collection_name = Inl (NotImplementedError ''new_collection not yet implemented'')"

definition local_drop_collection :: "string \<Rightarrow> exn + unit" where
  "local_drop_collection collection_name = Inl (NotImplementedError ''drop_collection not yet implemented'')"

definition local_add_feature :: "string \<Rightarrow> feature \<Rightarrow> exn + string" where
  "local_add_feature collection_name f = Inl (NotImplementedError ''add_feature not yet implemented'')"

definition local_add_features :: "string \<Rightarrow> feature list \<Rightarrow> exn + string" where
  "local_add_features collection_name fs = Inl (NotImplementedError ''new_collection not yet implemented'')"

section \<open>The remote backend: \<open>RemoteGeoPostgreSQLService\<close>\<close>

subsection \<open>The SQL templates\<close>

definition FILTER_SQL :: "string \<Rightarrow> string \<Rightarrow> string \<Rightarrow> string" where
  "FILTER_SQL collection query max_clause =
     ''SELECT  json_build_object('' @ nl @ ''        '' @ sq @ ''type'' @ sq @ '', '' @ sq @
       ''Feature'' @ sq @ '','' @ nl @ tab @ ''    '' @ sq @ ''properties'' @ sq @
       '', properties::json,'' @ nl @ ''        '' @ sq @ ''geometry'' @ sq @
       '', ST_AsGeoJSON(geometry)::json'' @ nl @ ''        )'' @ nl @ ''        FROM '' @ dq @
       collection @ dq @ '' '' @ nl @ ''        WHERE '' @ query @ '' '' @ max_clause"

definition FILTER_LONG_SQL :: "string \<Rightarrow> string \<Rightarrow> string \<Rightarrow> string" where
  "FILTER_LONG_SQL collection query max_clause =
     ''SELECT  *'' @ nl @ ''        FROM '' @ dq @ collection @ dq @ '' '' @ nl @
       ''        WHERE '' @ query @ '' '' @ max_clause"

definition GET_TABLES_SQL :: string where
  "GET_TABLES_SQL =
     ''SELECT t.table_name'' @ nl @ ''        FROM information_schema.tables t'' @ nl @
       ''        INNER JOIN information_schema.columns c on c.table_name = t.table_name '' @
       nl @ ''                                        and c.table_schema = t.table_schema'' @
       nl @ ''        WHERE c.column_name = '' @ sq @ ''properties'' @ sq @ nl @
       ''              AND t.table_schema not in ('' @ sq @ ''information_schema'' @ sq @
       '', '' @ sq @ ''pg_catalog'' @ sq @ '')'' @ nl @ ''              AND t.table_type = '' @
       sq @ ''BASE TABLE'' @ sq @ nl @ ''              '' @ nl @
       ''        ORDER BY t.table_schema;''"

definition TABLE_EXISTS_SQL :: "string \<Rightarrow> string" where
  "TABLE_EXISTS_SQL collection =
     ''SELECT EXISTS ('' @ nl @ ''            SELECT 1'' @ nl @
       ''            FROM   information_schema.tables'' @ nl @
       ''            WHERE  table_schema = '' @ sq @ ''public'' @ sq @ nl @
       ''            AND    table_name = '' @ sq @ collection @ sq @ '')''"

definition DROP_COLLECTION_SQL :: "string \<Rightarrow> string" where
  "DROP_COLLECTION_SQL collection = ''DROP TABLE '' @ collection"

definition CREATE_COLLECTION_SQL :: "string \<Rightarrow> string \<Rightarrow> string" where
  "CREATE_COLLECTION_SQL collection columns =
     ''            -- Table: public.'' @ collection @ nl @ nl @
       ''            -- DROP TABLE public.'' @ collection @ '';'' @ nl @ ''            '' @
       nl @ ''            CREATE TABLE public.'' @ collection @ nl @ ''            ('' @ nl @
       ''                -- Inherited from table public.geodb_master: id integer NOT NULL DEFAULT nextval('' @
       sq @ ''geodb_seq1'' @ sq @ ''::regclass),'' @ nl @
       ''                -- Inherited from table public.geodb_master: properties json,'' @ nl @
       ''                -- Inherited from table public.geodb_master: name character varying(512) COLLATE pg_catalog.'' @
       dq @ ''default'' @ dq @ '','' @ nl @
       ''                -- Inherited from table public.geodb_master: geometry geometry,'' @
       nl @
       ''                -- Inherited from table public.geodb_master: type character varying COLLATE pg_catalog.'' @
       dq @ ''default'' @ dq @ '' NOT NULL'' @ nl @ ''                '' @ columns @ nl @
       ''            )'' @ nl @ ''                INHERITS (public.geodb_master)'' @ nl @
       ''            WITH ('' @ nl @ ''                OIDS = FALSE'' @ nl @
       ''            )'' @ nl @ ''            TABLESPACE pg_default;'' @ nl @
       ''            '' @ nl @ ''            ALTER TABLE public.'' @ collection @ nl @
       ''                OWNER to postgres;'' @ nl @ ''            ''"

definition GET_SRID_SQL :: "string \<Rightarrow> string" where
  "GET_SRID_SQL collection = ''SELECT  ST_SRID(geometry) FROM '' @ collection @ '' LIMIT 1;''"

text \<open>The statement text of \<open>add_features\<close> (lines 381--383).\<close>

definition INSERT_SQL :: "string \<Rightarrow> string \<Rightarrow> string \<Rightarrow> string \<Rightarrow> string \<Rightarrow> string \<Rightarrow> string" where
  "INSERT_SQL collection_name props columns name vals geom =
     ''INSERT INTO '' @ collection_name @ ''('' @ props @ '', name, '' @ columns @
       '', geometry) VALUES('' @ sq @ props @ sq @ '', '' @ sq @ name @ sq @ '', '' @
       vals @ '', ST_GeomFromGeoJSON('' @ sq @ geom @ '')'' @ sq @ '')) ''"

subsection \<open>The connection and the service object\<close>

text \<open>
  The database driver is a collaborator.  The connection is known by the calls made on
  it, in order; the driver answers \<open>cursor.execute\<close> from the calls made before and the
  statement text: it raises, or gives a cursor with a row count and, when the statement
  returns rows, the rows.  \<open>commit\<close> is taken not to raise.
\<close>

datatype event = Execute string | Commit

record cursor =
  rowcount :: int
  result_set :: "pyval list list option"

type_synonym driver = "event list \<Rightarrow> string \<Rightarrow> exn + cursor"

definition fetchone :: "cursor \<Rightarrow> exn + pyval list option" where
  "fetchone cur =
     (case result_set cur of
        None \<Rightarrow> Inl (DatabaseError ''no results to fetch'')
      | Some [] \<Rightarrow> Inr None
      | Some (r # rs) \<Rightarrow> Inr (Some r))"

definition fetchall :: "cursor \<Rightarrow> exn + pyval list list" where
  "fetchall cur =
     (case result_set cur of
        None \<Rightarrow> Inl (DatabaseError ''no results to fetch'')
      | Some rs \<Rightarrow> Inr rs)"

record service =
  conn :: "event list"
  collections :: "pyval list"
  sql :: "string option"

text \<open>What \<open>query\<close> returns: one row (or \<open>None\<close>), a list of rows, or \<open>True\<close>.\<close>

datatype qresult = QRow "pyval list option" | QRows "pyval list list" | QTrue

definition query :: "driver \<Rightarrow> service \<Rightarrow> string \<Rightarrow> service \<times> (exn + qresult)" where
  "query drv s stmt =
     (let s1 = s\<lparr>conn := conn s @ [Execute stmt]\<rparr> in
      case drv (conn s) stmt of
        Inl e \<Rightarrow> (s1, Inl e)
      | Inr cur \<Rightarrow>
          if sublist ''SELECT'' stmt then
            (if rowcount cur = 1 then
               (case fetchone cur of Inl e \<Rightarrow> (s1, Inl e) | Inr r \<Rightarrow> (s1, Inr (QRow r)))
             else
               (case fetchall cur of Inl e \<Rightarrow> (s1, Inl e) | Inr rs \<Rightarrow> (s1, Inr (QRows rs))))
          else (s1\<lparr>conn := conn s1 @ [Commit]\<rparr>, Inr QTrue))"

text \<open>\<open>x[0]\<close> on a value, and on what \<open>query\<close> returned.\<close>

fun getitem0 :: "pyval \<Rightarrow> exn + pyval" where
  "getitem0 (PS (PStr [])) = Inl IndexError"
| "getitem0 (PS (PStr (c # cs))) = Inr (PS (PStr [c]))"
| "getitem0 (PS v) = Inl TypeError"
| "getitem0 (PSeq []) = Inl IndexError"
| "getitem0 (PSeq (x # xs)) = Inr x"
| "getitem0 (PMap m) = Inl (KeyError ''0'')"

fun result_item0 :: "qresult \<Rightarrow> exn + pyval" where
  "result_item0 (QRow None) = Inl TypeError"
| "result_item0 (QRow (Some row)) = getitem0 (PSeq row)"
| "result_item0 (QRows []) = Inl IndexError"
| "result_item0 (QRows (r # rs)) = Inr (PSeq r)"
| "result_item0 QTrue = Inl TypeError"

text \<open>A list comprehension whose element expression may raise.\<close>

fun collect :: "('a \<Rightarrow> exn + 'b) \<Rightarrow> 'a list \<Rightarrow> exn + 'b list" where
  "collect g [] = Inr []"
| "collect g (x # xs) =
     (case g x of
        Inl e \<Rightarrow> Inl e
      | Inr y \<Rightarrow> (case collect g xs of Inl e \<Rightarrow> Inl e | Inr ys \<Rightarrow> Inr (y # ys)))"

text \<open>\<open>_get_collections\<close>: \<open>[r[0] for r in result]\<close>, whatever shape the result has.\<close>

fun first_items :: "qresult \<Rightarrow> exn + pyval list" where
  "first_items (QRows rs) = collect (\<lambda>r. getitem0 (PSeq r)) rs"
| "first_items (QRow (Some row)) = collect getitem0 row"
| "first_items (QRow None) = Inl TypeError"
| "first_items QTrue = Inl TypeError"

definition get_collections :: "driver \<Rightarrow> service \<Rightarrow> service \<times> (exn + pyval list)" where
  "get_collections drv s =
     (case query drv s GET_TABLES_SQL of
        (s1, Inl e) \<Rightarrow> (s1, Inl e)
      | (s1, Inr result) \<Rightarrow> (s1, first_items result))"

text \<open>
  \<open>__init__\<close>, on an open connection with the calls \<open>conn0\<close> already made on it: the
  collection names are read once and kept.
\<close>

definition init :: "driver \<Rightarrow> event list \<Rightarrow> exn + service" where
  "init drv conn0 =
     (case get_collections drv \<lparr>conn = conn0, collections = [], sql = None\<rparr> of
        (s1, Inl e) \<Rightarrow> Inl e
      | (s1, Inr names) \<Rightarrow> Inr (s1\<lparr>collections := names, sql := None\<rparr>))"

definition collection_exists :: "driver \<Rightarrow> service \<Rightarrow> string \<Rightarrow> service \<times> (exn + pyval)" where
  "collection_exists drv s collection_name =
     (case query drv s (TABLE_EXISTS_SQL collection_name) of
        (s1, Inl e) \<Rightarrow> (s1, Inl e)
      | (s1, Inr result) \<Rightarrow> (s1, result_item0 result))"

definition get_srid_from_collection :: "driver \<Rightarrow> service \<Rightarrow> string \<Rightarrow> service \<times> (exn + pyval)" where
  "get_srid_from_collection drv s collection_name =
     (case query drv s (GET_SRID_SQL collection_name) of
        (s1, Inl e) \<Rightarrow> (s1, Inl e)
      | (s1, Inr result) \<Rightarrow> (s1, result_item0 result))"

subsection \<open>Finding features\<close>

text \<open>
  What \<open>find_features\<close> returns: the list of the first columns (\<open>geojson\<close>), or a
  geo-dataframe, known by its rows, or the one-row frame \<open>{'Message': ['empty result']}\<close>.
  \<open>GeoDataFrame.from_postgis\<close> executes the statement on the connection and tabulates
  the rows it returns.
\<close>

datatype found = Features "pyval list" | Frame "pyval list list" | MessageFrame string

definition limit_clause :: "int \<Rightarrow> string" where
  "limit_clause max_records = (if max_records > - 1 then ''LIMIT '' @ str_int max_records else [])"

definition remote_find_features ::
  "driver \<Rightarrow> service \<Rightarrow> string \<Rightarrow> string option \<Rightarrow> int \<Rightarrow> string \<Rightarrow> scalar list option \<Rightarrow> string
     \<Rightarrow> int \<Rightarrow> service \<times> (exn + found)" where
  "remote_find_features drv s collection_name qry max_records fmt bbox bbox_mode bbox_crs =
     (case collection_exists drv s collection_name of
        (s1, Inl e) \<Rightarrow> (s1, Inl e)
      | (s1, Inr ex) \<Rightarrow>
          if \<not> truthy ex then
            (s1, Inl (ValueError (''Collection '' @ collection_name @ '' not found'')))
          else
            (case alter_query qry bbox bbox_mode fmt (Some bbox_crs) of
               Inl e \<Rightarrow> (s1, Inl e)
             | Inr q \<Rightarrow>
                 if fmt = ''geojson'' then
                   (let stmt = FILTER_SQL collection_name q (limit_clause max_records);
                        s2 = s1\<lparr>sql := Some stmt\<rparr>;
                        s3 = s2\<lparr>conn := conn s2 @ [Execute stmt]\<rparr>
                    in case drv (conn s2) stmt of
                         Inl e \<Rightarrow> (s3, Inl e)
                       | Inr cur \<Rightarrow>
                           (case fetchall cur of
                              Inl e \<Rightarrow> (s3, Inl e)
                            | Inr rows \<Rightarrow>
                                (case collect (\<lambda>f. getitem0 (PSeq f)) rows of
                                   Inl e \<Rightarrow> (s3, Inl e)
                                 | Inr firsts \<Rightarrow> (s3, Inr (Features firsts)))))
                 else if fmt = ''geopandas'' then
                   (let stmt = FILTER_LONG_SQL collection_name q (limit_clause max_records);
                        s2 = s1\<lparr>sql := Some stmt\<rparr>;
                        s3 = s2\<lparr>conn := conn s2 @ [Execute stmt]\<rparr>
                    in case drv (conn s2) stmt of
                         Inl e \<Rightarrow> (s3, Inl e)
                       | Inr cur \<Rightarrow>
                           (case fetchall cur of
                              Inl e \<Rightarrow> (s3, Inl e)
                            | Inr rows \<Rightarrow>
                                if rows = [] then (s3, Inr (MessageFrame ''empty result''))
                                else (s3, Inr (Frame rows))))
                 else (s1, Inl (ValueError (''format '' @ fmt @ '' unknown'')))))"

text \<open>
  \<open>find_feature\<close> asks for one record with the default \<open>bbox_crs\<close>; \<open>features[0] if
  features else None\<close> takes the first of a list, and the truth value of a dataframe is
  a \<open>ValueError\<close>.
\<close>

definition remote_find_feature ::
  "driver \<Rightarrow> service \<Rightarrow> string \<Rightarrow> string option \<Rightarrow> string \<Rightarrow> scalar list option \<Rightarrow> string \<Rightarrow> int
     \<Rightarrow> service \<times> (exn + pyval option)" where
  "remote_find_feature drv s collection_name qry fmt bbox bbox_mode bbox_crs =
     (case remote_find_features drv s collection_name qry 1 fmt bbox bbox_mode 4326 of
        (s1, Inl e) \<Rightarrow> (s1, Inl e)
      | (s1, Inr (Features [])) \<Rightarrow> (s1, Inr None)
      | (s1, Inr (Features (f # rest))) \<Rightarrow> (s1, Inr (Some f))
      | (s1, Inr other) \<Rightarrow>
          (s1, Inl (ValueError ''The truth value of a DataFrame is ambiguous'')))"

subsection \<open>Creating and dropping collections\<close>

text \<open>A schema is a dictionary; \<open>schema['properties']\<close> maps property names to descriptors.\<close>

record schema =
  schema_properties :: "(string \<times> string) list option"

definition new_collection ::
  "driver \<Rightarrow> service \<Rightarrow> string \<Rightarrow> schema \<Rightarrow> service \<times> (exn + string)" where
  "new_collection drv s collection_name sch =
     (case collection_exists drv s collection_name of
        (s1, Inl e) \<Rightarrow> (s1, Inl e)
      | (s1, Inr ex) \<Rightarrow>
          if truthy ex then
            (s1, Inl (ValueError (''Collection '' @ collection_name @ '' exists'')))
          else
            (case schema_properties sch of
               None \<Rightarrow> (s1, Inl (KeyError ''properties''))
             | Some props \<Rightarrow>
                 (case collect (\<lambda>(k, v). make_column k v) props of
                    Inl e \<Rightarrow> (s1, Inl e)
                  | Inr columns \<Rightarrow>
                      (case query drv s1
                              (CREATE_COLLECTION_SQL collection_name (join ('','' @ nl) columns)) of
                         (s2, Inl e) \<Rightarrow> (s2, Inl e)
                       | (s2, Inr r) \<Rightarrow> (s2, Inr ''Collection created'')))))"

definition drop_collection :: "driver \<Rightarrow> service \<Rightarrow> string \<Rightarrow> service \<times> (exn + unit)" where
  "drop_collection drv s collection_name =
     (case collection_exists drv s collection_name of
        (s1, Inl e) \<Rightarrow> (s1, Inl e)
      | (s1, Inr ex) \<Rightarrow>
          if \<not> truthy ex then
            (s1, Inl (ValueError (''Collection '' @ collection_name @ '' does not exist'')))
          else
            (case query drv s1 (DROP_COLLECTION_SQL collection_name) of
               (s2, Inl e) \<Rightarrow> (s2, Inl e)
             | (s2, Inr r) \<Rightarrow> (s2, Inr ())))"

subsection \<open>Adding features\<close>

text \<open>\<open>c.lower()\<close>, on the ASCII letters.\<close>

definition lower_char :: "char \<Rightarrow> char" where
  "lower_char c =
     (let n = (of_char c :: nat) in if 65 \<le> n \<and> n \<le> 90 then char_of (n + 32) else c)"

definition lower :: "string \<Rightarrow> string" where
  "lower s = map lower_char s"

text \<open>Lines 369--374: numbers and booleans as they print, \<open>None\<close> as \<open>null\<close>, the rest quoted.\<close>

fun sql_value :: "scalar \<Rightarrow> string" where
  "sql_value (PFloat r) = py_str (PFloat r)"
| "sql_value (PInt i) = py_str (PInt i)"
| "sql_value (PBool b) = py_str (PBool b)"
| "sql_value PNone = ''null''"
| "sql_value (PStr s) = sq @ py_str (PStr s) @ sq"

definition properties_json :: "(string \<times> scalar) list \<Rightarrow> pyval" where
  "properties_json props = PMap (map (\<lambda>(k, v). (k, PS v)) props)"

text \<open>
  The body of the loop of \<open>add_features\<close> up to the statement text (lines 361--391);
  \<open>dumps\<close> is \<open>json.dumps\<close>.  The keyword arguments of \<open>dict(...)\<close> are evaluated in the
  order written, so \<open>properties['S_NAME']\<close> is read after the columns, the values and
  \<open>f['geometry']\<close>.
\<close>

definition insert_statement :: "(pyval \<Rightarrow> string) \<Rightarrow> string \<Rightarrow> feature \<Rightarrow> exn + string" where
  "insert_statement dumps collection_name f =
     (case properties f of
        None \<Rightarrow> Inl (KeyError ''properties'')
      | Some props \<Rightarrow>
          (let columns = join '','' (map (\<lambda>(c, v). dq @ lower c @ dq) props);
               vals = join '','' (map (\<lambda>(c, v). sql_value v) props)
           in case geometry f of
                None \<Rightarrow> Inl (KeyError ''geometry'')
              | Some g \<Rightarrow>
                  (case map_of props ''S_NAME'' of
                     None \<Rightarrow> Inl (KeyError ''S_NAME'')
                   | Some name \<Rightarrow>
                       Inr (INSERT_SQL collection_name (dumps (properties_json props)) columns
                              (py_str name) vals (dumps g)))))"

fun add_features ::
  "driver \<Rightarrow> (pyval \<Rightarrow> string) \<Rightarrow> service \<Rightarrow> string \<Rightarrow> feature list \<Rightarrow> service \<times> (exn + string)" where
  "add_features drv dumps s collection_name [] = (s, Inr ''Features Added'')"
| "add_features drv dumps s collection_name (f # fs) =
     (case insert_statement dumps collection_name f of
        Inl e \<Rightarrow> (s, Inl e)
      | Inr stmt \<Rightarrow>
          (case query drv s stmt of
             (s1, Inl e) \<Rightarrow> (s1, Inl e)
           | (s1, Inr r) \<Rightarrow> add_features drv dumps s1 collection_name fs))"

definition add_feature ::
  "driver \<Rightarrow> (pyval \<Rightarrow> string) \<Rightarrow> service \<Rightarrow> string \<Rightarrow> feature \<Rightarrow> service \<times> (exn + string)" where
  "add_feature drv dumps s collection_name f =
     (case add_features drv dumps s collection_name [f] of
        (s1, Inl e) \<Rightarrow> (s1, Inl e)
      | (s1, Inr r) \<Rightarrow> (s1, Inr ''Feature Added''))"

section \<open>Example collaborators\<close>

text \<open>
  A small compiler, evaluator, directory and collection, for running the definitions on
  concrete inputs: \<open>demo_eval\<close> knows the expressions \<open>True\<close> and \<open>height == 2\<close>, and
  raises \<open>NameError\<close> when the feature has no \<open>height\<close>.
\<close>

definition demo_compile :: "string \<Rightarrow> exn + string" where
  "demo_compile text = (if text = ''height =='' then Inl SyntaxError else Inr text)"

definition demo_eval :: "string \<Rightarrow> (string \<rightharpoonup> scalar) \<Rightarrow> exn + pyval" where
  "demo_eval code vars =
     (if code = ''True'' then Inr (PS (PBool True))
      else (case vars ''height'' of
              None \<Rightarrow> Inl (NameError ''height'')
            | Some v \<Rightarrow> Inr (PS (PBool (v = PInt 2)))))"

definition park :: "int \<Rightarrow> (string \<times> scalar) list \<Rightarrow> feature" where
  "park i props = \<lparr>fid = Some (PInt i), properties = Some props, geometry = Some (PMap [])\<rparr>"

definition demo_files :: "string \<rightharpoonup> feature list" where
  "demo_files = [''parks'' \<mapsto> [park 1 [(''S_NAME'', PStr ''a'')], park 2 [(''height'', PInt 2)],
                            park 3 [(''height'', PInt 2), (''S_NAME'', PStr ''c'')]]]"

text \<open>
  For the remote backend: a driver that accepts every statement and returns no rows, a
  stand-in for \<open>json.dumps\<close>, a service on a fresh connection, two features (the second
  without the \<open>S_NAME\<close> property), and a driver \<open>demo_db\<close> that simulates a catalogue
  with at most the one table \<open>sites\<close>: the table exists after a \<open>CREATE TABLE
  public.sites\<close> statement and until a \<open>DROP TABLE sites\<close>.
\<close>

definition accept_all :: driver where
  "accept_all hist stmt = Inr \<lparr>rowcount = 1, result_set = None\<rparr>"

definition demo_dumps :: "pyval \<Rightarrow> string" where
  "demo_dumps v = (case v of PMap [] \<Rightarrow> ''{}'' | _ \<Rightarrow> ''{...}'')"

fun sites_table :: "event list \<Rightarrow> bool \<Rightarrow> bool" where
  "sites_table [] b = b"
| "sites_table (Execute stmt # es) b =
     sites_table es (if sublist ''CREATE TABLE public.sites'' stmt then True
                     else if stmt = DROP_COLLECTION_SQL ''sites'' then False else b)"
| "sites_table (Commit # es) b = sites_table es b"

definition demo_db :: driver where
  "demo_db hist stmt =
     (if stmt = GET_TABLES_SQL then
        Inr \<lparr>rowcount = (if sites_table hist False then 1 else 0),
             result_set = Some (if sites_table hist False then [[PS (PStr ''sites'')]] else [])\<rparr>
      else if stmt = TABLE_EXISTS_SQL ''sites'' then
        Inr \<lparr>rowcount = 1, result_set = Some [[PS (PBool (sites_table hist False))]]\<rparr>
      else Inr \<lparr>rowcount = - 1, result_set = None\<rparr>)"

definition empty_service :: service where
  "empty_service = \<lparr>conn = [], collections = [], sql = None\<rparr>"


definition site_b :: feature where
  "site_b = park 2 [(''height'', PInt 2)]"


definition create_sites :: string where
  "create_sites = CREATE_COLLECTION_SQL ''sites'' ''height numeric(8,2)''"

definition sites_schema :: schema where
  "sites_schema = \<lparr>schema_properties = Some [(''height'', ''float:8.2'')]\<rparr>"

definition service0 :: service where
  "service0 = \<lparr>conn = [Execute GET_TABLES_SQL], collections = [], sql = None\<rparr>"

definition service1 :: service where
  "service1 = \<lparr>conn = [Execute GET_TABLES_SQL, Execute (TABLE_EXISTS_SQL ''sites''),
                         Execute create_sites, Commit],
                 collections = [], sql = None\<rparr>"

definition service2 :: service where
  "service2 = \<lparr>conn = [Execute GET_TABLES_SQL, Execute (TABLE_EXISTS_SQL ''sites''),
                         Execute create_sites, Commit, Execute (TABLE_EXISTS_SQL ''sites''),
                         Execute (DROP_COLLECTION_SQL ''sites''), Commit],
                 collections = [], sql = None\<rparr>"



section \<open>Definitions for stating the properties\<close>

text \<open>
  The calls that one successful \<open>query\<close> makes on the connection: the statement is
  executed, and committed unless its text contains \<open>SELECT\<close>.
\<close>

definition query_events :: "string \<Rightarrow> event list" where
  "query_events stmt = (if sublist ''SELECT'' stmt then [Execute stmt] else [Execute stmt, Commit])"

text \<open>
  The spec's description of the region literal, written from its words: the five
  vertices of the closed ring in the stated order, each rendered as \<open>x y\<close>, joined by
  commas inside \<open>POLYGON((...))\<close>, with the optional SRID tag in front.
\<close>

definition spec_ring :: "scalar \<Rightarrow> scalar \<Rightarrow> scalar \<Rightarrow> scalar \<Rightarrow> (scalar \<times> scalar) list" where
  "spec_ring minx miny maxx maxy =
     [(minx, miny), (minx, maxy), (maxx, maxy), (maxx, miny), (minx, miny)]"

definition spec_wkt :: "int option \<Rightarrow> (scalar \<times> scalar) list \<Rightarrow> string" where
  "spec_wkt srid vs =
     '' '' @ (case srid of None \<Rightarrow> [] | Some n \<Rightarrow> ''SRID='' @ str_int n @ '';'')
       @ ''POLYGON(('' @ join '','' (map (\<lambda>(x, y). py_str x @ '' '' @ py_str y) vs)
       @ ''))::geometry''"


section \<open>Basic facts about the text helpers\<close>

declare str_nat.simps [simp del]

lemma split_on_nonempty: "split_on c s \<noteq> []"
  by (induction s) (auto split: list.splits)

lemma split_on_notin: "c \<notin> set s \<Longrightarrow> split_on c s = [s]"
  by (induction s) auto

lemma split_on_append: "c \<notin> set a \<Longrightarrow> split_on c (a @ c # b) = a # split_on c b"
  by (induction a) (auto split: list.splits)

text \<open>Joining the pieces with the separator gives the text back.\<close>

lemma join_split_on: "join [c] (split_on c s) = s"
proof (induction s)
  case Nil
  show ?case by simp
next
  case (Cons x xs)
  obtain p ps where sp: "split_on c xs = p # ps"
    using split_on_nonempty [of c xs] by (cases "split_on c xs") auto
  show ?case
  proof (cases "x = c")
    case True
    with Cons sp show ?thesis by simp
  next
    case False
    with Cons sp show ?thesis by (cases ps) auto
  qed
qed

lemma split_on_two: "split_on c s = [a, b] \<Longrightarrow> s = a @ c # b"
  using join_split_on [of c s] by simp

lemma length_two_cases: "length xs = 2 \<Longrightarrow> \<exists>a b. xs = [a, b]"
  by (cases xs rule: list.exhaust; simp; metis length_0_conv length_Suc_conv)

lemma prec_str_shape:
  "prec_str typ = [] \<or>
   (\<exists>x p s. typ = x @ '':'' @ p @ ''.'' @ s \<and> prec_str typ = ''('' @ p @ '','' @ s @ '')'')"
proof (cases "length (split_on CHR '':'' typ) = 2")
  case False
  then show ?thesis by (simp add: prec_str_def Let_def)
next
  case True
  then obtain x r where xr: "split_on CHR '':'' typ = [x, r]"
    using length_two_cases by blast
  have typ_eq: "typ = x @ CHR '':'' # r" using split_on_two [OF xr] .
  show ?thesis
  proof (cases "length (split_on CHR ''.'' r) = 2")
    case False
    with xr show ?thesis by (simp add: prec_str_def Let_def)
  next
    case True
    then obtain p s where ps: "split_on CHR ''.'' r = [p, s]"
      using length_two_cases by blast
    have r: "r = p @ CHR ''.'' # s" using split_on_two [OF ps] .
    have "prec_str typ = ''('' @ p @ '','' @ s @ '')''"
      using xr ps by (simp add: prec_str_def Let_def)
    with typ_eq r show ?thesis by auto
  qed
qed

lemma prec_str_suffix:
  assumes "CHR '':'' \<notin> set x" "CHR '':'' \<notin> set p" "CHR '':'' \<notin> set s"
    "CHR ''.'' \<notin> set p" "CHR ''.'' \<notin> set s"
  shows "prec_str (x @ '':'' @ p @ ''.'' @ s) = ''('' @ p @ '','' @ s @ '')''"
proof -
  have "CHR '':'' \<notin> set (p @ ''.'' @ s)" using assms by simp
  then have 1: "split_on CHR '':'' (x @ '':'' @ p @ ''.'' @ s) = [x, p @ ''.'' @ s]"
    using assms(1) by (simp add: split_on_append split_on_notin)
  have 2: "split_on CHR ''.'' (p @ ''.'' @ s) = [p, s]"
    using assms(4,5) by (simp add: split_on_append split_on_notin)
  show ?thesis using 1 2 by (simp add: prec_str_def Let_def)
qed

lemma not_int_in_str: "\<not> sublist ''int'' ''str''"
  by code_simp

lemma not_float_in_str: "\<not> sublist ''float'' ''str''"
  by code_simp

lemma bbox_wkt_spec: "bbox_wkt minx miny maxx maxy srid = spec_wkt srid (spec_ring minx miny maxx maxy)"
  by (simp add: bbox_wkt_def spec_wkt_def spec_ring_def srid_str_def)

section \<open>The query translator\<close>

text \<open>
  C1 (as amended).  With the bounding-box predicate \<open>bq\<close> computed, \<open>_alter_query\<close> follows
  the table: neither present gives \<open>TRUE\<close>; a query alone gives \<open>properties->>query\<close> for
  \<open>geojson\<close> and the query itself for \<open>geopandas\<close>; the predicate alone is returned as it
  is; both are joined by \<open>and\<close> with the same rewriting of the query.  A format other
  than \<open>geojson\<close> and \<open>geopandas\<close> is a \<open>ValueError\<close> whenever a query is present; with
  no query the format is not looked at and the result is the same for every format.
\<close>

theorem alter_query_table:
  assumes "bbox_query bbox bbox_mode srid = Inr bq"
  shows "((qry = None \<or> qry = Some []) \<and> bq = None \<longrightarrow>
            alter_query qry bbox bbox_mode fmt srid = Inr ''TRUE'') \<and>
         (qry = Some q \<and> q \<noteq> [] \<and> bq = None \<longrightarrow>
            alter_query qry bbox bbox_mode ''geojson'' srid = Inr (''properties->>'' @ q) \<and>
            alter_query qry bbox bbox_mode ''geopandas'' srid = Inr q) \<and>
         ((qry = None \<or> qry = Some []) \<and> bq = Some p \<longrightarrow>
            alter_query qry bbox bbox_mode fmt srid = Inr p) \<and>
         (qry = Some q \<and> q \<noteq> [] \<and> bq = Some p \<longrightarrow>
            alter_query qry bbox bbox_mode ''geojson'' srid
              = Inr (''properties->>'' @ q @ '' and '' @ p) \<and>
            alter_query qry bbox bbox_mode ''geopandas'' srid = Inr (q @ '' and '' @ p)) \<and>
         (qry = Some q \<and> q \<noteq> [] \<and> fmt \<noteq> ''geojson'' \<and> fmt \<noteq> ''geopandas'' \<longrightarrow>
            alter_query qry bbox bbox_mode fmt srid
              = Inl (ValueError (''format '' @ fmt @ '' not known'')))"
  using assms by (cases bq) (auto simp add: alter_query_def)

theorem alter_query_table_witness:
  "bbox_query (Some [PInt 1, PInt 2, PInt 3, PInt 4]) ''within'' None
     = Inr (Some ('' ST_Within('' @ sq @ '' POLYGON((1 2,1 4,3 4,3 2,1 2))::geometry'' @ sq @ '', geometry)''))
   \<and> alter_query (Some ''a'') (Some [PInt 1, PInt 2, PInt 3, PInt 4]) ''within'' ''geojson'' None
     = Inr (''properties->>a and  ST_Within('' @ sq @ '' POLYGON((1 2,1 4,3 4,3 2,1 2))::geometry''
            @ sq @ '', geometry)'')
   \<and> alter_query (Some ''a'') (Some [PInt 1, PInt 2, PInt 3, PInt 4]) ''within'' ''csv'' None
     = Inl (ValueError ''format csv not known'')"
proof -
  have h: "bbox_query (Some [PInt 1, PInt 2, PInt 3, PInt 4]) ''within'' None
     = Inr (Some ('' ST_Within('' @ sq @ '' POLYGON((1 2,1 4,3 4,3 2,1 2))::geometry'' @ sq @ '', geometry)''))"
    by code_simp
  show ?thesis
    using h alter_query_table [OF h, where qry = "Some ''a''" and q = "''a''" and fmt = "''csv''"]
    by simp
qed

theorem alter_query_format_counterexample:
  "''csv'' \<noteq> ''geojson'' \<and> ''csv'' \<noteq> ''geopandas'' \<and>
   alter_query None None ''contains'' ''csv'' None = Inr ''TRUE''"
  by (simp add: alter_query_def)

text \<open>
  C2.  For a bounding box of four coordinates (further elements are ignored) the
  predicate is \<open>ST_Contains\<close> or \<open>ST_Within\<close> applied to the quoted region literal of the
  spec and \<open>geometry\<close>; the two texts are the same around the function name.  Any other
  mode is a \<open>ValueError\<close>, of the predicate and of the whole translation.
\<close>

theorem bbox_query_modes:
  "bbox_query (Some (minx # miny # maxx # maxy # rest)) ''contains'' srid
     = Inr (Some ('' '' @ ''ST_Contains'' @ ''('' @ sq
                  @ spec_wkt srid (spec_ring minx miny maxx maxy) @ sq @ '', geometry)''))
   \<and> bbox_query (Some (minx # miny # maxx # maxy # rest)) ''within'' srid
     = Inr (Some ('' '' @ ''ST_Within'' @ ''('' @ sq
                  @ spec_wkt srid (spec_ring minx miny maxx maxy) @ sq @ '', geometry)''))
   \<and> (bbox_mode \<noteq> ''contains'' \<and> bbox_mode \<noteq> ''within'' \<longrightarrow>
        bbox_query (Some (minx # miny # maxx # maxy # rest)) bbox_mode srid
          = Inl (ValueError (''bbox_mode '' @ bbox_mode @ '' unknown'')) \<and>
        alter_query qry (Some (minx # miny # maxx # maxy # rest)) bbox_mode fmt srid
          = Inl (ValueError (''bbox_mode '' @ bbox_mode @ '' unknown'')))"
  by (simp add: alter_query_def bbox_wkt_spec)

theorem bbox_query_modes_witness:
  "''overlaps'' \<noteq> ''contains'' \<and> ''overlaps'' \<noteq> ''within'' \<and>
   alter_query (Some ''a'') (Some [PInt 1, PInt 2, PInt 3, PInt 4]) ''overlaps'' ''geojson'' (Some 4326)
     = Inl (ValueError ''bbox_mode overlaps unknown'') \<and>
   bbox_query (Some [PInt 1, PInt 2, PInt 3, PInt 4]) ''contains'' (Some 4326)
     = Inr (Some ('' ST_Contains('' @ sq @ '' SRID=4326;POLYGON((1 2,1 4,3 4,3 2,1 2))::geometry''
                  @ sq @ '', geometry)''))"
proof -
  have w: "spec_wkt (Some 4326) (spec_ring (PInt 1) (PInt 2) (PInt 3) (PInt 4))
             = '' SRID=4326;POLYGON((1 2,1 4,3 4,3 2,1 2))::geometry''"
    by code_simp
  show ?thesis
    using bbox_query_modes [of "PInt 1" "PInt 2" "PInt 3" "PInt 4" "[]" "Some 4326"
        "''overlaps''" "Some ''a''" "''geojson''"] w
    by simp
qed

section \<open>The column-type mapper\<close>

text \<open>
  C5 (as amended).  \<open>_make_column\<close> is a function of the name and the descriptor alone.
  The descriptor \<open>str\<close> gives a \<open>character varying(256)\<close> column; a descriptor in which
  \<open>int\<close> occurs gives an integer column; a descriptor in which \<open>float\<close> occurs and
  \<open>int\<close> does not gives a numeric column, with \<open>(precision,scale)\<close> exactly when the
  descriptor is \<open>x:precision.scale\<close> (one colon, one dot after it), so
  \<open>float:8.2\<close> gives \<open>numeric(8,2)\<close> and \<open>float\<close> gives \<open>numeric\<close>; every other
  descriptor is a \<open>NotImplementedError\<close>.
\<close>

theorem make_column_descriptors:
  "make_column name ''str''
     = Inr (name @ '' character varying(256) COLLATE pg_catalog.'' @ dq @ ''default'' @ dq)
   \<and> (sublist ''int'' typ \<longrightarrow> make_column name typ = Inr (name @ '' integer''))
   \<and> (\<not> sublist ''int'' typ \<and> sublist ''float'' typ \<longrightarrow>
        make_column name typ = Inr (name @ '' numeric'' @ prec_str typ) \<and>
        (prec_str typ = [] \<or>
         (\<exists>x p s. typ = x @ '':'' @ p @ ''.'' @ s \<and> prec_str typ = ''('' @ p @ '','' @ s @ '')'')))
   \<and> (\<not> sublist ''int'' (''float:'' @ p @ ''.'' @ s) \<and>
        CHR '':'' \<notin> set p \<and> CHR '':'' \<notin> set s \<and> CHR ''.'' \<notin> set p \<and> CHR ''.'' \<notin> set s \<longrightarrow>
        make_column name (''float:'' @ p @ ''.'' @ s)
          = Inr (name @ '' numeric('' @ p @ '','' @ s @ '')''))
   \<and> make_column name ''float'' = Inr (name @ '' numeric'')
   \<and> (typ \<noteq> ''str'' \<and> \<not> sublist ''int'' typ \<and> \<not> sublist ''float'' typ \<longrightarrow>
        make_column name typ = Inl (NotImplementedError (''Column type '' @ typ @ '' not implemented'')))
   \<and> (typ = typ' \<longrightarrow> make_column name typ = make_column name typ')"
proof -
  have a: "make_column name ''str''
     = Inr (name @ '' character varying(256) COLLATE pg_catalog.'' @ dq @ ''default'' @ dq)"
    by (simp add: make_column_def)
  have b: "sublist ''int'' typ \<longrightarrow> make_column name typ = Inr (name @ '' integer'')"
    using not_int_in_str by (auto simp add: make_column_def)
  have c: "\<not> sublist ''int'' typ \<and> sublist ''float'' typ \<longrightarrow>
        make_column name typ = Inr (name @ '' numeric'' @ prec_str typ)"
    using not_float_in_str by (auto simp add: make_column_def)
  have d: "\<not> sublist ''int'' (''float:'' @ p @ ''.'' @ s) \<and>
        CHR '':'' \<notin> set p \<and> CHR '':'' \<notin> set s \<and> CHR ''.'' \<notin> set p \<and> CHR ''.'' \<notin> set s \<longrightarrow>
        make_column name (''float:'' @ p @ ''.'' @ s)
          = Inr (name @ '' numeric('' @ p @ '','' @ s @ '')'')"
  proof
    assume h: "\<not> sublist ''int'' (''float:'' @ p @ ''.'' @ s) \<and>
        CHR '':'' \<notin> set p \<and> CHR '':'' \<notin> set s \<and> CHR ''.'' \<notin> set p \<and> CHR ''.'' \<notin> set s"
    have pre: "prec_str (''float'' @ '':'' @ p @ ''.'' @ s) = ''('' @ p @ '','' @ s @ '')''"
      using h by (intro prec_str_suffix) simp_all
    have fl: "sublist ''float'' (''float:'' @ p @ ''.'' @ s)"
      by (simp add: sublist_Cons_right)
    have ne: "''float:'' @ p @ ''.'' @ s \<noteq> ''str''" by simp
    show "make_column name (''float:'' @ p @ ''.'' @ s)
          = Inr (name @ '' numeric('' @ p @ '','' @ s @ '')'')"
      unfolding make_column_def using h pre fl ne by simp
  qed
  have e: "make_column name ''float'' = Inr (name @ '' numeric'')"
    by (simp add: make_column_def prec_str_def sublist_Cons_right)
  have f: "typ \<noteq> ''str'' \<and> \<not> sublist ''int'' typ \<and> \<not> sublist ''float'' typ \<longrightarrow>
        make_column name typ = Inl (NotImplementedError (''Column type '' @ typ @ '' not implemented''))"
    by (simp add: make_column_def)
  show ?thesis using a b c d e f prec_str_shape by blast
qed

theorem make_column_descriptors_witness:
  "\<not> sublist ''int'' ''float:8.2'' \<and> sublist ''float'' ''float:8.2''
   \<and> make_column ''height'' ''float:8.2'' = Inr ''height numeric(8,2)''
   \<and> sublist ''int'' ''bigint'' \<and> make_column ''n'' ''bigint'' = Inr ''n integer''
   \<and> ''date'' \<noteq> ''str'' \<and> \<not> sublist ''int'' ''date'' \<and> \<not> sublist ''float'' ''date''
   \<and> make_column ''d'' ''date'' = Inl (NotImplementedError ''Column type date not implemented'')"
proof -
  have h1: "\<not> sublist ''int'' ''float:8.2''" "sublist ''float'' ''float:8.2''"
    "sublist ''int'' ''bigint''" "\<not> sublist ''int'' ''date''" "\<not> sublist ''float'' ''date''"
    "prec_str ''float:8.2'' = ''(8,2)''"
    by code_simp+
  show ?thesis
    using h1 make_column_descriptors [of "''height''" "''float:8.2''" "''8''" "''2''"]
      make_column_descriptors [of "''n''" "''bigint''"]
      make_column_descriptors [of "''d''" "''date''"]
    by simp
qed

theorem make_column_float_counterexample:
  "sublist ''float'' ''intfloat'' \<and> make_column ''h'' ''intfloat'' = Inr ''h integer''"
  by (simp add: make_column_def sublist_Cons_right)

section \<open>The local backend\<close>

lemma scan_subseq: "scan py_eval code k fs acc = Inr r \<Longrightarrow> \<exists>ms. subseq ms fs \<and> r = acc @ ms"
proof (induction fs arbitrary: acc)
  case Nil
  then show ?case by simp
next
  case (Cons f fs)
  show ?case
  proof (cases "eval_feature py_eval code f")
    case (Inl e)
    with Cons.prems show ?thesis by simp
  next
    case (Inr v)
    show ?thesis
    proof (cases "truthy v")
      case False
      with Cons.prems Inr have "scan py_eval code k fs acc = Inr r" by simp
      from Cons.IH [OF this] obtain ms where "subseq ms fs" "r = acc @ ms" by blast
      then show ?thesis by (intro exI [of _ ms]) (simp add: list_emb_Cons)
    next
      case True
      show ?thesis
      proof (cases "int (length (acc @ [f])) \<ge> k")
        case True
        with Cons.prems Inr \<open>truthy v\<close> have "r = acc @ [f]" by simp
        then show ?thesis by (intro exI [of _ "[f]"]) simp
      next
        case False
        with Cons.prems Inr \<open>truthy v\<close> have "scan py_eval code k fs (acc @ [f]) = Inr r" by simp
        from Cons.IH [OF this] obtain ms where "subseq ms fs" "r = (acc @ [f]) @ ms" by blast
        then show ?thesis by (intro exI [of _ "f # ms"]) simp
      qed
    qed
  qed
qed

lemma scan_length:
  "scan py_eval code k fs acc = Inr r \<Longrightarrow> int (length r) \<le> max k (int (length acc) + 1) \<or> r = acc"
proof (induction fs arbitrary: acc)
  case Nil
  then show ?case by simp
next
  case (Cons f fs)
  show ?case
  proof (cases "eval_feature py_eval code f")
    case (Inl e)
    with Cons.prems show ?thesis by simp
  next
    case (Inr v)
    show ?thesis
    proof (cases "truthy v")
      case False
      with Cons.prems Inr have "scan py_eval code k fs acc = Inr r" by simp
      from Cons.IH [OF this] show ?thesis .
    next
      case True
      show ?thesis
      proof (cases "int (length (acc @ [f])) \<ge> k")
        case True
        with Cons.prems Inr \<open>truthy v\<close> have "r = acc @ [f]" by simp
        then show ?thesis by simp
      next
        case False
        with Cons.prems Inr \<open>truthy v\<close> have "scan py_eval code k fs (acc @ [f]) = Inr r" by simp
        from Cons.IH [OF this] False show ?thesis by auto
      qed
    qed
  qed
qed








text \<open>
  C9.  With \<open>query = None\<close> the local \<open>find_features\<close> always raises: \<open>TypeError\<close> from
  \<open>compile\<close> when no bounding box is given (the bounding-box check comes first), and
  never returns features; the literal \<open>TRUE\<close> for an absent query is produced by the
  remote translator \<open>_alter_query\<close> only.
\<close>

theorem local_find_features_no_query:
  "(\<exists>e. local_find_features py_compile py_eval files collection_name None k fmt bbox mode crs = Inl e)
   \<and> (\<not> bbox_given bbox \<longrightarrow>
        local_find_features py_compile py_eval files collection_name None k fmt bbox mode crs
          = Inl TypeError)
   \<and> alter_query None None mode fmt srid = Inr ''TRUE''"
  by (simp add: local_find_features_def compile_query_def alter_query_def)

theorem local_find_features_no_query_witness:
  "\<not> bbox_given None \<and>
   local_find_features demo_compile demo_eval demo_files ''parks'' None (- 1) ''geopandas'' None
      ''contains'' 4326 = Inl TypeError"
  using local_find_features_no_query [of demo_compile demo_eval demo_files "''parks''" "- 1"
      "''geopandas''" None "''contains''" 4326]
  by simp

text \<open>
  C3.  The local loop stops as soon as \<open>len(result_set) >= max_records\<close> after an
  append, also when \<open>max_records\<close> is negative or zero: on a collection of three
  matching features, \<open>max_records = -1\<close> (the default) and \<open>max_records = 0\<close> both
  return the first feature alone, where the claim has all three and none.
\<close>

theorem local_find_features_unbounded_failing:
  "local_find_features demo_compile demo_eval demo_files ''parks'' (Some ''True'') (- 1)
      ''geopandas'' None ''contains'' 4326 = Inr [park 1 [(''S_NAME'', PStr ''a'')]]
   \<and> local_find_features demo_compile demo_eval demo_files ''parks'' (Some ''True'') 0
      ''geopandas'' None ''contains'' 4326 = Inr [park 1 [(''S_NAME'', PStr ''a'')]]
   \<and> local_find_features demo_compile demo_eval demo_files ''parks'' (Some ''True'') 3
      ''geopandas'' None ''contains'' 4326
       = Inr [park 1 [(''S_NAME'', PStr ''a'')], park 2 [(''height'', PInt 2)],
              park 3 [(''height'', PInt 2), (''S_NAME'', PStr ''c'')]]"
  by (simp add: local_find_features_def compile_query_def demo_compile_def demo_files_def
      get_collection_def eval_feature_def demo_eval_def)

section \<open>The remote backend\<close>

text \<open>The \<open>LIMIT\<close> clause of the remote \<open>find_features\<close>.\<close>

lemma limit_clause_cases:
  "(0 \<le> k \<longrightarrow> limit_clause k = ''LIMIT '' @ str_int k) \<and> (k < 0 \<longrightarrow> limit_clause k = [])"
  by (simp add: limit_clause_def)

lemma query_collections [simp]: "collections (fst (query drv s stmt)) = collections s"
  by (simp add: query_def Let_def split: sum.splits)

lemma query_collectionsD:
  "query drv s stmt = (s', r) \<Longrightarrow> collections s' = collections s"
  using query_collections [of drv s stmt] by simp

lemma query_sql [simp]: "sql (fst (query drv s stmt)) = sql s"
  by (simp add: query_def Let_def split: sum.splits)


text \<open>
  C6.  \<open>add_feature\<close> on a feature whose properties have no \<open>S_NAME\<close> key raises a
  \<open>KeyError\<close> and leaves the service, and with it the connection, as it was: no statement has
  been issued.
\<close>

theorem add_feature_missing_name:
  assumes "properties f = Some props" and "map_of props ''S_NAME'' = None"
  shows "add_feature drv dumps s collection_name f
           = (s, Inl (if geometry f = None then KeyError ''geometry'' else KeyError ''S_NAME''))"
  using assms by (auto simp add: add_feature_def insert_statement_def Let_def split: option.splits)

lemma query_ok:
  "query drv s stmt = (s', Inr r) \<Longrightarrow> s' = s\<lparr>conn := conn s @ query_events stmt\<rparr>"
  by (auto simp add: query_def Let_def query_events_def split: sum.splits if_splits)


lemma query_cache_indep:
  "query drv (s\<lparr>collections := c\<rparr>) stmt
     = ((fst (query drv s stmt))\<lparr>collections := c\<rparr>, snd (query drv s stmt))"
  by (simp add: query_def Let_def split: sum.splits)

lemma select_in_table_exists: "sublist ''SELECT'' (TABLE_EXISTS_SQL n)"
  by (simp add: TABLE_EXISTS_SQL_def sublist_Cons_right)

lemma query_select_conn:
  "sublist ''SELECT'' stmt \<Longrightarrow> conn (fst (query drv s stmt)) = conn s @ [Execute stmt]"
  by (simp add: query_def Let_def split: sum.splits)

lemma collection_exists_collections [simp]:
  "collections (fst (collection_exists drv s n)) = collections s"
proof -
  obtain s1 r where q: "query drv s (TABLE_EXISTS_SQL n) = (s1, r)" by (cases "query drv s (TABLE_EXISTS_SQL n)")
  have "collections s1 = collections s" using query_collections [of drv s "TABLE_EXISTS_SQL n"] q by simp
  then show ?thesis by (simp add: collection_exists_def q split: sum.splits)
qed

lemma collection_exists_conn:
  "conn (fst (collection_exists drv s n)) = conn s @ [Execute (TABLE_EXISTS_SQL n)]"
proof -
  obtain s1 r where q: "query drv s (TABLE_EXISTS_SQL n) = (s1, r)" by (cases "query drv s (TABLE_EXISTS_SQL n)")
  have "conn s1 = conn s @ [Execute (TABLE_EXISTS_SQL n)]"
    using query_select_conn [OF select_in_table_exists, of drv s n] q by simp
  then show ?thesis by (simp add: collection_exists_def q split: sum.splits)
qed

lemma collection_exists_cache_indep:
  "snd (collection_exists drv (s\<lparr>collections := c\<rparr>) n) = snd (collection_exists drv s n)"
  by (simp add: collection_exists_def query_cache_indep split: prod.splits sum.splits)

lemma get_srid_collections [simp]:
  "collections (fst (get_srid_from_collection drv s n)) = collections s"
proof -
  obtain s1 r where q: "query drv s (GET_SRID_SQL n) = (s1, r)" by (cases "query drv s (GET_SRID_SQL n)")
  have "collections s1 = collections s" using query_collections [of drv s "GET_SRID_SQL n"] q by simp
  then show ?thesis by (simp add: get_srid_from_collection_def q split: sum.splits)
qed

lemma remote_find_features_collections [simp]:
  "collections (fst (remote_find_features drv s n qry k fmt bbox mode crs)) = collections s"
proof -
  obtain s1 r where q: "collection_exists drv s n = (s1, r)" by (cases "collection_exists drv s n")
  have c: "collections s1 = collections s" using collection_exists_collections [of drv s n] q by simp
  show ?thesis
    by (simp add: remote_find_features_def q c Let_def split: sum.splits)
qed

lemma remote_find_feature_collections [simp]:
  "collections (fst (remote_find_feature drv s n qry fmt bbox mode crs)) = collections s"
proof -
  obtain s1 r where q: "remote_find_features drv s n qry 1 fmt bbox mode 4326 = (s1, r)"
    by (cases "remote_find_features drv s n qry 1 fmt bbox mode 4326")
  have c: "collections s1 = collections s"
    using remote_find_features_collections [of drv s n qry 1 fmt bbox mode 4326] q by simp
  show ?thesis
    by (simp add: remote_find_feature_def q c split: sum.splits found.splits list.splits)
qed

lemma new_collection_collections [simp]:
  "collections (fst (new_collection drv s n sch)) = collections s"
proof -
  obtain s1 r where q: "collection_exists drv s n = (s1, r)" by (cases "collection_exists drv s n")
  have c: "collections s1 = collections s" using collection_exists_collections [of drv s n] q by simp
  show ?thesis
    by (auto simp add: new_collection_def q c split: sum.splits option.splits prod.splits
        dest: query_collectionsD)
qed

lemma drop_collection_collections [simp]:
  "collections (fst (drop_collection drv s n)) = collections s"
proof -
  obtain s1 r where q: "collection_exists drv s n = (s1, r)" by (cases "collection_exists drv s n")
  have c: "collections s1 = collections s" using collection_exists_collections [of drv s n] q by simp
  show ?thesis
    by (auto simp add: drop_collection_def q c split: sum.splits option.splits prod.splits
        dest: query_collectionsD)
qed

lemma add_features_frame:
  "collections (fst (add_features drv dumps s n fs)) = collections s
   \<and> sql (fst (add_features drv dumps s n fs)) = sql s"
proof (induction fs arbitrary: s)
  case Nil
  show ?case by simp
next
  case (Cons f fs)
  show ?case
  proof (cases "insert_statement dumps n f")
    case (Inl e)
    then show ?thesis by simp
  next
    case (Inr stmt)
    obtain s1 r where q: "query drv s stmt = (s1, r)" by (cases "query drv s stmt")
    have c: "collections s1 = collections s" "sql s1 = sql s"
      using query_collections [of drv s stmt] query_sql [of drv s stmt] q by simp_all
    show ?thesis
      using Cons.IH [of s1] c by (cases r) (simp_all add: Inr q)
  qed
qed

lemma add_feature_collections [simp]:
  "collections (fst (add_feature drv dumps s n f)) = collections s"
proof -
  obtain s1 r where q: "add_features drv dumps s n [f] = (s1, r)"
    by (cases "add_features drv dumps s n [f]")
  have c: "collections s1 = collections s" using add_features_frame [of drv dumps s n "[f]"] q by simp
  show ?thesis by (simp add: add_feature_def q c del: add_features.simps split: sum.splits)
qed










theorem add_feature_missing_name_witness:
  "properties site_b = Some [(''height'', PInt 2)] \<and> map_of [(''height'', PInt 2)] ''S_NAME'' = None
   \<and> add_feature accept_all demo_dumps empty_service ''sites'' site_b
       = (empty_service, Inl (KeyError ''S_NAME''))"
proof -
  have p: "properties site_b = Some [(''height'', PInt 2)]" by (simp add: site_b_def park_def)
  have m: "map_of [(''height'', PInt 2 :: scalar)] ''S_NAME'' = None" by simp
  have g: "geometry site_b \<noteq> None" by (simp add: site_b_def park_def)
  show ?thesis
    using p m g add_feature_missing_name [OF p m, of accept_all demo_dumps empty_service "''sites''"]
    by simp
qed


lemma select_in_get_tables: "sublist ''SELECT'' GET_TABLES_SQL"
  by (simp add: GET_TABLES_SQL_def sublist_Cons_right)

lemma init_reads_once:
  "init drv c0 = Inr s0 \<Longrightarrow>
     conn s0 = c0 @ [Execute GET_TABLES_SQL] \<and> sql s0 = None \<and>
     snd (get_collections drv \<lparr>conn = c0, collections = [], sql = None\<rparr>) = Inr (collections s0)"
proof -
  assume a: "init drv c0 = Inr s0"
  obtain s1 r where g: "get_collections drv \<lparr>conn = c0, collections = [], sql = None\<rparr> = (s1, r)"
    by (cases "get_collections drv \<lparr>conn = c0, collections = [], sql = None\<rparr>")
  obtain s2 r2 where q: "query drv \<lparr>conn = c0, collections = [], sql = None\<rparr> GET_TABLES_SQL = (s2, r2)"
    by (cases "query drv \<lparr>conn = c0, collections = [], sql = None\<rparr> GET_TABLES_SQL")
  have c2: "conn s2 = c0 @ [Execute GET_TABLES_SQL]"
    using query_select_conn [OF select_in_get_tables, of drv "\<lparr>conn = c0, collections = [], sql = None\<rparr>"] q
    by simp
  have s12: "s1 = s2" using g q by (simp add: get_collections_def split: sum.splits)
  from a g obtain names where r: "r = Inr names" and s0: "s0 = s1\<lparr>collections := names, sql := None\<rparr>"
    by (cases r) (simp_all add: init_def)
  show ?thesis using r s0 s12 c2 g by simp
qed

lemma new_collection_issues_create:
  "new_collection drv s n sch = (s', Inr msg) \<Longrightarrow>
     \<exists>cols. set (query_events (CREATE_COLLECTION_SQL n cols)) \<subseteq> set (conn s')"
proof -
  assume a: "new_collection drv s n sch = (s', Inr msg)"
  obtain s1 r where e: "collection_exists drv s n = (s1, r)" by (cases "collection_exists drv s n")
  from a e obtain ex props columns where
    h: "r = Inr ex" "schema_properties sch = Some props"
       "collect (\<lambda>(k, v). make_column k v) props = Inr columns"
    by (auto simp add: new_collection_def split: sum.splits if_splits option.splits prod.splits)
  from a e h obtain r2 where
    q: "query drv s1 (CREATE_COLLECTION_SQL n (join ('','' @ nl) columns)) = (s', Inr r2)"
    by (auto simp add: new_collection_def split: sum.splits if_splits option.splits prod.splits)
  have "conn s' = conn s1 @ query_events (CREATE_COLLECTION_SQL n (join ('','' @ nl) columns))"
    using query_ok [OF q] by simp
  then show ?thesis by (intro exI [of _ "join ('','' @ nl) columns"]) simp
qed

lemma drop_collection_issues_drop:
  "drop_collection drv s n = (s', Inr u) \<Longrightarrow>
     set (query_events (DROP_COLLECTION_SQL n)) \<subseteq> set (conn s')"
proof -
  assume a: "drop_collection drv s n = (s', Inr u)"
  obtain s1 r where e: "collection_exists drv s n = (s1, r)" by (cases "collection_exists drv s n")
  from a e obtain r2 where
    q: "query drv s1 (DROP_COLLECTION_SQL n) = (s', Inr r2)"
    by (auto simp add: drop_collection_def split: sum.splits if_splits option.splits prod.splits)
  have "conn s' = conn s1 @ query_events (DROP_COLLECTION_SQL n)"
    using query_ok [OF q] by simp
  then show ?thesis by simp
qed

text \<open>
  C10.  The cached list of collection names is read once by \<open>__init__\<close> with the
  statement \<open>_GET_TABLES_SQL\<close>, and no operation changes it: not \<open>query\<close>, the existence
  check, the SRID lookup, the searches, \<open>new_collection\<close>, \<open>drop_collection\<close> nor the
  additions.  A successful \<open>new_collection\<close> or \<open>drop_collection\<close> has executed its
  \<open>CREATE TABLE\<close> or \<open>DROP TABLE\<close> and still leaves the cache as it was.  The
  existence check does not depend on the cache and always executes
  \<open>_TABLE_EXISTS_SQL\<close> on the connection.
\<close>

theorem collections_cache_frozen:
  "(init drv c0 = Inr s0 \<longrightarrow>
      conn s0 = c0 @ [Execute GET_TABLES_SQL] \<and>
      snd (get_collections drv \<lparr>conn = c0, collections = [], sql = None\<rparr>) = Inr (collections s0))
   \<and> collections (fst (query drv s stmt)) = collections s
   \<and> collections (fst (collection_exists drv s n)) = collections s
   \<and> collections (fst (get_srid_from_collection drv s n)) = collections s
   \<and> collections (fst (remote_find_features drv s n qry k fmt bbox mode crs)) = collections s
   \<and> collections (fst (remote_find_feature drv s n qry fmt bbox mode crs)) = collections s
   \<and> collections (fst (new_collection drv s n sch)) = collections s
   \<and> collections (fst (drop_collection drv s n)) = collections s
   \<and> collections (fst (add_features drv dumps s n fs)) = collections s
   \<and> collections (fst (add_feature drv dumps s n f)) = collections s
   \<and> (new_collection drv s n sch = (s', Inr msg) \<longrightarrow>
        collections s' = collections s \<and>
        (\<exists>cols. set (query_events (CREATE_COLLECTION_SQL n cols)) \<subseteq> set (conn s')))
   \<and> (drop_collection drv s n = (s'', Inr u) \<longrightarrow>
        collections s'' = collections s \<and>
        set (query_events (DROP_COLLECTION_SQL n)) \<subseteq> set (conn s''))
   \<and> snd (collection_exists drv (s\<lparr>collections := c\<rparr>) n) = snd (collection_exists drv s n)
   \<and> conn (fst (collection_exists drv s n)) = conn s @ [Execute (TABLE_EXISTS_SQL n)]"
proof -
  have a: "init drv c0 = Inr s0 \<longrightarrow>
      conn s0 = c0 @ [Execute GET_TABLES_SQL] \<and>
      snd (get_collections drv \<lparr>conn = c0, collections = [], sql = None\<rparr>) = Inr (collections s0)"
    using init_reads_once by blast
  have b: "new_collection drv s n sch = (s', Inr msg) \<longrightarrow>
        collections s' = collections s \<and>
        (\<exists>cols. set (query_events (CREATE_COLLECTION_SQL n cols)) \<subseteq> set (conn s'))"
    using new_collection_issues_create [of drv s n sch s' msg]
    by (metis fst_conv new_collection_collections)
  have c: "drop_collection drv s n = (s'', Inr u) \<longrightarrow>
        collections s'' = collections s \<and>
        set (query_events (DROP_COLLECTION_SQL n)) \<subseteq> set (conn s'')"
    using drop_collection_issues_drop [of drv s n s'' u]
    by (metis fst_conv drop_collection_collections)
  show ?thesis
    using a b c add_features_frame [of drv dumps s n fs]
    by (simp add: collection_exists_cache_indep collection_exists_conn del: add_features.simps)
qed

lemma demo_facts:
  "TABLE_EXISTS_SQL ''sites'' \<noteq> GET_TABLES_SQL"
  "create_sites \<noteq> GET_TABLES_SQL"
  "create_sites \<noteq> TABLE_EXISTS_SQL ''sites''"
  "\<not> sublist ''CREATE TABLE public.sites'' GET_TABLES_SQL"
  "\<not> sublist ''CREATE TABLE public.sites'' (TABLE_EXISTS_SQL ''sites'')"
  "sublist ''CREATE TABLE public.sites'' create_sites"
  "GET_TABLES_SQL \<noteq> DROP_COLLECTION_SQL ''sites''"
  "TABLE_EXISTS_SQL ''sites'' \<noteq> DROP_COLLECTION_SQL ''sites''"
  "\<not> sublist ''SELECT'' create_sites"
  by code_simp+

lemma demo_columns:
  "collect (\<lambda>(k, v). make_column k v) [(''height'', ''float:8.2'')] = Inr [''height numeric(8,2)'']"
  by code_simp

lemma demo_init: "init demo_db [] = Inr service0"
  by (simp add: init_def get_collections_def query_def demo_db_def Let_def select_in_get_tables
      fetchall_def service0_def)

lemma demo_exists0:
  "collection_exists demo_db service0 ''sites''
     = (service0\<lparr>conn := [Execute GET_TABLES_SQL, Execute (TABLE_EXISTS_SQL ''sites'')]\<rparr>,
        Inr (PS (PBool False)))"
  by (simp add: collection_exists_def query_def demo_db_def Let_def select_in_table_exists
      fetchone_def service0_def demo_facts)

lemma demo_create:
  "query demo_db (service0\<lparr>conn := [Execute GET_TABLES_SQL, Execute (TABLE_EXISTS_SQL ''sites'')]\<rparr>)
      create_sites = (service1, Inr QTrue)"
  by (simp add: query_def demo_db_def Let_def service0_def service1_def demo_facts)

lemma demo_new: "new_collection demo_db service0 ''sites'' sites_schema = (service1, Inr ''Collection created'')"
proof -
  have j: "\<And>sep. CREATE_COLLECTION_SQL ''sites'' (join sep [''height numeric(8,2)'']) = create_sites"
    by (simp add: create_sites_def)
  show ?thesis
    by (simp add: new_collection_def demo_exists0 sites_schema_def demo_columns j demo_create
        del: join.simps collect.simps)
qed

lemma demo_exists1:
  "snd (collection_exists demo_db service1 ''sites'') = Inr (PS (PBool True))"
  by (simp add: collection_exists_def query_def demo_db_def Let_def select_in_table_exists
      fetchone_def service1_def demo_facts)

lemma demo_drop_facts:
  "DROP_COLLECTION_SQL ''sites'' \<noteq> GET_TABLES_SQL"
  "DROP_COLLECTION_SQL ''sites'' \<noteq> TABLE_EXISTS_SQL ''sites''"
  "\<not> sublist ''CREATE TABLE public.sites'' (DROP_COLLECTION_SQL ''sites'')"
  "\<not> sublist ''SELECT'' (DROP_COLLECTION_SQL ''sites'')"
  by code_simp+

lemma demo_exists1_full:
  "collection_exists demo_db service1 ''sites''
     = (service1\<lparr>conn := conn service1 @ [Execute (TABLE_EXISTS_SQL ''sites'')]\<rparr>,
        Inr (PS (PBool True)))"
  by (simp add: collection_exists_def query_def demo_db_def Let_def select_in_table_exists
      fetchone_def service1_def demo_facts)

lemma demo_drop_query:
  "query demo_db (service1\<lparr>conn := conn service1 @ [Execute (TABLE_EXISTS_SQL ''sites'')]\<rparr>)
      (DROP_COLLECTION_SQL ''sites'') = (service2, Inr QTrue)"
  by (simp add: query_def demo_db_def Let_def service1_def service2_def demo_drop_facts)

lemma demo_drop: "drop_collection demo_db service1 ''sites'' = (service2, Inr ())"
  by (simp add: drop_collection_def demo_exists1_full demo_drop_query)

lemma demo_exists2:
  "snd (collection_exists demo_db service2 ''sites'') = Inr (PS (PBool False))"
  by (simp add: collection_exists_def query_def demo_db_def Let_def select_in_table_exists
      fetchone_def service2_def demo_facts demo_drop_facts)

theorem collections_cache_frozen_witness:
  "init demo_db [] = Inr service0
   \<and> new_collection demo_db service0 ''sites'' sites_schema = (service1, Inr ''Collection created'')
   \<and> collections service1 = []
   \<and> snd (collection_exists demo_db service1 ''sites'') = Inr (PS (PBool True))
   \<and> conn (fst (collection_exists demo_db service1 ''sites''))
       = conn service1 @ [Execute (TABLE_EXISTS_SQL ''sites'')]
   \<and> drop_collection demo_db service1 ''sites'' = (service2, Inr ())
   \<and> collections service2 = []
   \<and> snd (collection_exists demo_db service2 ''sites'') = Inr (PS (PBool False))"
  using demo_init demo_new demo_exists1 demo_drop demo_exists2
    collections_cache_frozen [where drv = demo_db and ?c0.0 = "[]" and ?s0.0 = service0
      and s = service0 and n = "''sites''" and sch = sites_schema and s' = service1
      and msg = "''Collection created''"]
    collections_cache_frozen [where drv = demo_db and s = service1 and n = "''sites''"
      and s'' = service2 and u = "()"]
  by (simp add: service0_def service1_def service2_def)

end
